theory Spec2Isabelle
  imports Main "HOL-Library.AList"
begin

section \<open>Message adapter of \<open>llm_client.py\<close>\<close>

subsection \<open>Python values used by the adapter\<close>

text \<open>
  A chat message is a \<open>Dict[str, str]\<close>: a finite map from keys to text.  Two Python
  dictionaries are equal when they hold the same keys with the same values, which is
  equality of maps.
\<close>

type_synonym message = "string \<rightharpoonup> string"

text \<open>\<open>d.get(key, default)\<close> of a Python dictionary.\<close>

definition dict_get :: "('k \<rightharpoonup> 'v) \<Rightarrow> 'k \<Rightarrow> 'v \<Rightarrow> 'v" where
  "dict_get d key dflt = (case d key of None \<Rightarrow> dflt | Some v \<Rightarrow> v)"

text \<open>\<open>sep.join(parts)\<close> of Python strings.\<close>

fun join :: "string \<Rightarrow> string list \<Rightarrow> string" where
  "join sep [] = []"
| "join sep [p] = p"
| "join sep (p # q # ps) = p @ sep @ join sep (q # ps)"

subsection \<open>\<open>prepare_responses_messages\<close>\<close>

text \<open>
  The body of the \<open>for message in messages\<close> loop, with the two lists it appends to
  (\<open>instructions_parts\<close> and \<open>conversation\<close>) as accumulators.
\<close>

fun prepare_loop :: "message list \<Rightarrow> string list \<Rightarrow> message list \<Rightarrow> string list \<times> message list" where
  "prepare_loop [] instructions_parts conversation = (instructions_parts, conversation)"
| "prepare_loop (message # messages) instructions_parts conversation =
     (let role = dict_get message ''role'' ''user'';
          content = dict_get message ''content'' ''''
      in if role = ''system''
         then prepare_loop messages (instructions_parts @ [content]) conversation
         else prepare_loop messages instructions_parts
                (conversation @ [[''role'' \<mapsto> role, ''content'' \<mapsto> content]]))"

definition prepare_responses_messages :: "message list \<Rightarrow> string option \<times> message list" where
  "prepare_responses_messages messages =
     (case prepare_loop messages [] [] of
        (instructions_parts, conversation) \<Rightarrow>
          (if instructions_parts \<noteq> [] then Some (join ''\<newline>\<newline>'' instructions_parts) else None,
           if conversation = [] then [[''role'' \<mapsto> ''user'', ''content'' \<mapsto> '''']] else conversation))"

text \<open>Vocabulary of the specification, for stating the properties.\<close>

definition role_of :: "message \<Rightarrow> string" where
  "role_of m = dict_get m ''role'' ''user''"

definition content_of :: "message \<Rightarrow> string" where
  "content_of m = dict_get m ''content'' ''''"

definition is_system :: "message \<Rightarrow> bool" where
  "is_system m = (role_of m = ''system'')"

text \<open>The role/content pair of a message, as a two-key dictionary.\<close>

definition role_content :: "message \<Rightarrow> message" where
  "role_content m = [''role'' \<mapsto> role_of m, ''content'' \<mapsto> content_of m]"

text \<open>A message that carries exactly the keys \<open>role\<close> and \<open>content\<close>.\<close>

definition plain_message :: "message \<Rightarrow> bool" where
  "plain_message m = (dom m = {''role'', ''content''})"

definition placeholder :: message where
  "placeholder = [''role'' \<mapsto> ''user'', ''content'' \<mapsto> '''']"

subsection \<open>Exceptions\<close>

text \<open>
  The exceptions the functions can raise: the two the factories raise themselves, with
  their message, and the \<open>TypeError\<close> of \<open>str.join\<close> on an item that is not a string.
\<close>

datatype error = RuntimeError string | EnvironmentError string | TypeError

subsection \<open>\<open>extract_response_text\<close>\<close>















subsection \<open>\<open>response_to_dict\<close>\<close>

text \<open>
  The result of \<open>response.model_dump(mode="json")\<close> is a JSON value: a dictionary whose
  values are \<open>None\<close>, booleans, numbers, strings, lists and dictionaries.  A dictionary is
  an association list in insertion order, read with \<^const>\<open>map_of\<close>.  (Floating-point
  numbers are left out: the function does not compute with the values it moves.)
\<close>

datatype json =
    JNull
  | JBool bool
  | JInt int
  | JStr string
  | JList "json list"
  | JDict "(string \<times> json) list"

text \<open>\<open>d.get(key)\<close>: the value, or \<open>None\<close> when the key is missing.\<close>

definition json_get :: "(string \<times> json) list \<Rightarrow> string \<Rightarrow> json" where
  "json_get d key = (case map_of d key of None \<Rightarrow> JNull | Some v \<Rightarrow> v)"

text \<open>\<open>d.setdefault(key, value)\<close>: a new key goes to the end, an existing one is kept.\<close>

definition setdefault :: "(string \<times> json) list \<Rightarrow> string \<Rightarrow> json \<Rightarrow> (string \<times> json) list" where
  "setdefault d key v = (if map_of d key = None then d @ [(key, v)] else d)"

text \<open>
  The function takes the dumped dictionary.  \<open>usage\<close> is the very dictionary stored
  under \<open>"usage"\<close>, so the two \<open>setdefault\<close> calls change \<open>response_dict\<close> at that key.
\<close>

definition response_to_dict :: "(string \<times> json) list \<Rightarrow> (string \<times> json) list" where
  "response_to_dict response_dict =
     (case map_of response_dict ''usage'' of
        Some (JDict usage) \<Rightarrow>
          (let prompt = json_get usage ''input_tokens'';
               completion = json_get usage ''output_tokens'';
               usage1 = setdefault usage ''prompt_tokens'' prompt;
               usage2 = setdefault usage1 ''completion_tokens'' completion
           in AList.update ''usage'' (JDict usage2) response_dict)
      | _ \<Rightarrow> response_dict)"

section \<open>Client factories of \<open>llm_client.py\<close> and \<open>openrouter_client.py\<close>\<close>

subsection \<open>Environment and truth values\<close>

text \<open>
  The process environment \<open>os.environ\<close> maps variable names to text; \<open>os.getenv(name)\<close>
  and \<open>os.environ.get(name)\<close> are the lookup, and \<open>os.getenv(name, default)\<close> is
  \<^const>\<open>dict_get\<close>.
\<close>

type_synonym environ = "string \<rightharpoonup> string"

text \<open>
  The truth value Python gives an optional string in \<open>if value:\<close> and \<open>not value\<close>:
  \<open>None\<close> and the empty string are false.
\<close>

definition truthy :: "string option \<Rightarrow> bool" where
  "truthy v = (case v of None \<Rightarrow> False | Some s \<Rightarrow> s \<noteq> [])"

text \<open>Python's \<open>a or b\<close> on optional strings.\<close>

definition py_or :: "string option \<Rightarrow> string option \<Rightarrow> string option" where
  "py_or a b = (if truthy a then a else b)"

subsection \<open>Headers\<close>

text \<open>
  A header dictionary is an association list in insertion order; \<open>headers[k] = v\<close> is
  \<^const>\<open>AList.update\<close>.  \<open>_build_default_headers\<close> ends with \<open>headers or None\<close>: an
  empty dictionary becomes \<open>None\<close>.
\<close>

type_synonym headers = "(string \<times> string) list"

definition build_default_headers :: "environ \<Rightarrow> headers option" where
  "build_default_headers env =
     (let headers = [];
          referer = env ''OPENROUTER_HTTP_REFERER'';
          headers = (case referer of
                       Some (c # cs) \<Rightarrow> AList.update ''HTTP-Referer'' (c # cs) headers
                     | _ \<Rightarrow> headers);
          title = py_or (env ''OPENROUTER_TITLE'') (env ''OPENROUTER_X_TITLE'');
          headers = (case title of
                       Some (c # cs) \<Rightarrow> AList.update ''X-Title'' (c # cs) headers
                     | _ \<Rightarrow> headers)
      in if headers \<noteq> [] then Some headers else None)"

text \<open>\<open>_optional_header\<close> of \<open>openrouter_client.py\<close>; the dictionary it mutates is returned.\<close>

definition optional_header :: "environ \<Rightarrow> string \<Rightarrow> string \<Rightarrow> headers \<Rightarrow> headers" where
  "optional_header env name header headers =
     (let val = env name
      in case val of Some (c # cs) \<Rightarrow> AList.update header (c # cs) headers | _ \<Rightarrow> headers)"

subsection \<open>Client objects and the process state\<close>

text \<open>
  An \<open>OpenAI\<close> client is an object: each call of the constructor makes a new one, and two
  references are identical when they are the same address.  The process state holds the
  objects built so far (the address of an object is its index) and the cache of each
  factory.  The constructor stores the three arguments the factories pass.
\<close>

record client =
  api_key :: string
  base_url :: string
  default_headers :: "headers option"

record process =
  heap :: "client list"
  llm_client_cache :: "nat option"
  openrouter_client_cache :: "nat option"

definition OpenAI :: "string \<Rightarrow> string \<Rightarrow> headers option \<Rightarrow> process \<Rightarrow> nat \<times> process" where
  "OpenAI key url hdrs p =
     (length (heap p),
      p\<lparr>heap := heap p @ [\<lparr>api_key = key, base_url = url, default_headers = hdrs\<rparr>]\<rparr>)"

definition new_process :: process where
  "new_process = \<lparr>heap = [], llm_client_cache = None, openrouter_client_cache = None\<rparr>"

definition deref :: "process \<Rightarrow> nat \<Rightarrow> client option" where
  "deref p r = (if r < length (heap p) then Some (heap p ! r) else None)"

subsection \<open>\<open>get_llm_client\<close>\<close>

text \<open>The function under the decorator: \<open>if not api_key: raise RuntimeError(...)\<close>.\<close>

definition get_llm_client_body :: "environ \<Rightarrow> process \<Rightarrow> (error + nat) \<times> process" where
  "get_llm_client_body env p =
     (case env ''OPENROUTER_API_KEY'' of
        Some (c # cs) \<Rightarrow>
          (let base_url = dict_get env ''OPENROUTER_BASE_URL'' ''https://openrouter.ai/api/v1'';
               default_headers = build_default_headers env
           in case OpenAI (c # cs) base_url default_headers p of (r, p') \<Rightarrow> (Inr r, p'))
      | _ \<Rightarrow>
          (Inl (RuntimeError
             ''OPENROUTER_API_KEY is not set. Configure your OpenRouter API key in the environment before running the pipeline.''),
           p))"

text \<open>
  \<open>@lru_cache()\<close> on a function without parameters: a call that finds a cached result
  returns it without running the function; otherwise the function runs, and its result
  is cached when it returns (an exception is not cached).
\<close>

definition get_llm_client :: "environ \<Rightarrow> process \<Rightarrow> (error + nat) \<times> process" where
  "get_llm_client env p =
     (case llm_client_cache p of
        Some r \<Rightarrow> (Inr r, p)
      | None \<Rightarrow>
          (case get_llm_client_body env p of
             (Inl e, p') \<Rightarrow> (Inl e, p')
           | (Inr r, p') \<Rightarrow> (Inr r, p'\<lparr>llm_client_cache := Some r\<rparr>)))"

subsection \<open>\<open>get_openrouter_client\<close>\<close>

definition get_openrouter_client_body :: "environ \<Rightarrow> process \<Rightarrow> (error + nat) \<times> process" where
  "get_openrouter_client_body env p =
     (case env ''OPENROUTER_API_KEY'' of
        Some (c # cs) \<Rightarrow>
          (let base_url = dict_get env ''OPENROUTER_BASE_URL'' ''https://openrouter.ai/api/v1'';
               default_headers = [];
               default_headers = optional_header env ''OPENROUTER_REFERER'' ''HTTP-Referer'' default_headers;
               default_headers = optional_header env ''OPENROUTER_APP_NAME'' ''X-Title'' default_headers
           in case OpenAI (c # cs) base_url (Some default_headers) p of (r, p') \<Rightarrow> (Inr r, p'))
      | _ \<Rightarrow>
          (Inl (EnvironmentError ''OPENROUTER_API_KEY must be set to use the OpenRouter client.''), p))"

text \<open>\<open>@lru_cache(maxsize=1)\<close>, as above.\<close>

definition get_openrouter_client :: "environ \<Rightarrow> process \<Rightarrow> (error + nat) \<times> process" where
  "get_openrouter_client env p =
     (case openrouter_client_cache p of
        Some r \<Rightarrow> (Inr r, p)
      | None \<Rightarrow>
          (case get_openrouter_client_body env p of
             (Inl e, p') \<Rightarrow> (Inl e, p')
           | (Inr r, p') \<Rightarrow> (Inr r, p'\<lparr>openrouter_client_cache := Some r\<rparr>)))"

subsection \<open>Runs of a process\<close>

text \<open>
  What a process does to the state above is a sequence of calls of the two factories, each
  with the environment of its moment.
\<close>

datatype call = Get_llm_client environ | Get_openrouter_client environ

fun step :: "call \<Rightarrow> process \<Rightarrow> (error + nat) \<times> process" where
  "step (Get_llm_client env) p = get_llm_client env p"
| "step (Get_openrouter_client env) p = get_openrouter_client env p"

fun exec :: "call list \<Rightarrow> process \<Rightarrow> process" where
  "exec [] p = p"
| "exec (c # cs) p = exec cs (snd (step c p))"

fun is_llm_call :: "call \<Rightarrow> bool" where
  "is_llm_call (Get_llm_client env) = True"
| "is_llm_call (Get_openrouter_client env) = False"

text \<open>
  The number of client objects that the selected calls of a run construct: a call
  constructs as many objects as it adds to the heap.
\<close>

fun constructions :: "(call \<Rightarrow> bool) \<Rightarrow> call list \<Rightarrow> process \<Rightarrow> nat" where
  "constructions sel [] p = 0"
| "constructions sel (c # cs) p =
     (let p' = snd (step c p)
      in (if sel c then length (heap p') - length (heap p) else 0) + constructions sel cs p')"

text \<open>
  The \<open>default_headers\<close> argument a factory call has passed to the client it returns:
  \<open>Some None\<close> when the argument was \<open>None\<close>, \<open>Some (Some hs)\<close> when it was the
  dictionary \<open>hs\<close>, and \<open>None\<close> when the call returns no client.
\<close>

definition headers_passed :: "(error + nat) \<times> process \<Rightarrow> headers option option" where
  "headers_passed res =
     (case res of
        (Inr r, p') \<Rightarrow> map_option default_headers (deref p' r)
      | (Inl e, p') \<Rightarrow> None)"

text \<open>The value of one header in an optional header dictionary.\<close>

definition header_value :: "headers option \<Rightarrow> string \<Rightarrow> string option" where
  "header_value hs name = (case hs of None \<Rightarrow> None | Some h \<Rightarrow> map_of h name)"

text \<open>The value of one header of the client a factory call returns.\<close>

definition header_passed :: "(error + nat) \<times> process \<Rightarrow> string \<Rightarrow> string option" where
  "header_passed res name = (case headers_passed res of None \<Rightarrow> None | Some hs \<Rightarrow> header_value hs name)"

section \<open>Properties of the message adapter\<close>

lemma prepare_loop_filter:
  "prepare_loop ms ps cs =
     (ps @ map content_of (filter is_system ms),
      cs @ map role_content (filter (\<lambda>m. \<not> is_system m) ms))"
  by (induction ms arbitrary: ps cs)
     (simp_all add: Let_def is_system_def role_of_def content_of_def role_content_def)

lemma role_content_plain:
  assumes "plain_message m"
  shows "role_content m = m"
proof (rule ext)
  fix k
  from assms have d: "dom m = {''role'', ''content''}"
    by (simp add: plain_message_def)
  show "role_content m k = m k"
  proof (cases "k = ''role'' \<or> k = ''content''")
    case True
    moreover from d obtain r where "m ''role'' = Some r" by blast
    moreover from d obtain c where "m ''content'' = Some c" by blast
    ultimately show ?thesis
      by (auto simp: role_content_def role_of_def content_of_def dict_get_def)
  next
    case False
    with d have "m k = None" by blast
    with False show ?thesis by (simp add: role_content_def)
  qed
qed

lemma prepare_responses_messages_filter:
  "prepare_responses_messages ms =
     (if filter is_system ms = [] then None
      else Some (join ''\<newline>\<newline>'' (map content_of (filter is_system ms))),
      if filter (\<lambda>m. \<not> is_system m) ms = [] then [placeholder]
      else map role_content (filter (\<lambda>m. \<not> is_system m) ms))"
  by (simp add: prepare_responses_messages_def prepare_loop_filter placeholder_def)

text \<open>
  Claim C1.  The first component of \<open>prepare_responses_messages\<close> is absent when no
  message has the role \<open>system\<close>, and otherwise the contents of the system messages, in
  input order, joined by a blank line.  The second component holds the role/content pair
  of every non-system message, in input order (and only the placeholder when there is
  none); when the messages carry exactly the keys \<open>role\<close> and \<open>content\<close> these pairs are
  the messages themselves.  On the two system messages \<open>A\<close>, \<open>B\<close> followed by the user
  message \<open>Q\<close> the result is the instruction text \<open>A\<close>, blank line, \<open>B\<close> and the
  conversation holding the user message alone.
\<close>

theorem prepare_responses_messages_partition:
  "fst (prepare_responses_messages ms) =
     (if filter is_system ms = [] then None
      else Some (join ''\<newline>\<newline>'' (map content_of (filter is_system ms))))
   \<and> (filter (\<lambda>m. \<not> is_system m) ms \<noteq> [] \<longrightarrow>
        snd (prepare_responses_messages ms) = map role_content (filter (\<lambda>m. \<not> is_system m) ms))
   \<and> (filter (\<lambda>m. \<not> is_system m) ms \<noteq> [] \<and> (\<forall>m \<in> set ms. plain_message m) \<longrightarrow>
        snd (prepare_responses_messages ms) = filter (\<lambda>m. \<not> is_system m) ms)
   \<and> prepare_responses_messages
         [[''role'' \<mapsto> ''system'', ''content'' \<mapsto> ''A''],
          [''role'' \<mapsto> ''system'', ''content'' \<mapsto> ''B''],
          [''role'' \<mapsto> ''user'', ''content'' \<mapsto> ''Q'']]
       = (Some ''A\<newline>\<newline>B'', [[''role'' \<mapsto> ''user'', ''content'' \<mapsto> ''Q'']])"
proof (intro conjI impI)
  show "fst (prepare_responses_messages ms) =
     (if filter is_system ms = [] then None
      else Some (join ''\<newline>\<newline>'' (map content_of (filter is_system ms))))"
    by (simp add: prepare_responses_messages_filter)
next
  assume "filter (\<lambda>m. \<not> is_system m) ms \<noteq> []"
  then show "snd (prepare_responses_messages ms) = map role_content (filter (\<lambda>m. \<not> is_system m) ms)"
    by (simp add: prepare_responses_messages_filter)
next
  assume a: "filter (\<lambda>m. \<not> is_system m) ms \<noteq> [] \<and> (\<forall>m \<in> set ms. plain_message m)"
  then have "map role_content (filter (\<lambda>m. \<not> is_system m) ms) = filter (\<lambda>m. \<not> is_system m) ms"
    by (intro map_idI) (simp add: role_content_plain)
  with a show "snd (prepare_responses_messages ms) = filter (\<lambda>m. \<not> is_system m) ms"
    by (simp add: prepare_responses_messages_filter)
next
  show "prepare_responses_messages
         [[''role'' \<mapsto> ''system'', ''content'' \<mapsto> ''A''],
          [''role'' \<mapsto> ''system'', ''content'' \<mapsto> ''B''],
          [''role'' \<mapsto> ''user'', ''content'' \<mapsto> ''Q'']]
       = (Some ''A\<newline>\<newline>B'', [[''role'' \<mapsto> ''user'', ''content'' \<mapsto> ''Q'']])"
    by (simp add: prepare_responses_messages_def dict_get_def)
qed

theorem prepare_responses_messages_partition_witness:
  "filter (\<lambda>m. \<not> is_system m)
     [[''role'' \<mapsto> ''system'', ''content'' \<mapsto> ''A''],
      [''role'' \<mapsto> ''user'', ''content'' \<mapsto> ''Q''],
      [''role'' \<mapsto> ''assistant'', ''content'' \<mapsto> ''R'']] \<noteq> []
   \<and> list_all plain_message [[''role'' \<mapsto> ''system'', ''content'' \<mapsto> ''A''],
      [''role'' \<mapsto> ''user'', ''content'' \<mapsto> ''Q''],
      [''role'' \<mapsto> ''assistant'', ''content'' \<mapsto> ''R'']]
   \<and> prepare_responses_messages
        [[''role'' \<mapsto> ''system'', ''content'' \<mapsto> ''A''],
         [''role'' \<mapsto> ''user'', ''content'' \<mapsto> ''Q''],
         [''role'' \<mapsto> ''assistant'', ''content'' \<mapsto> ''R'']]
       = (Some ''A'', [[''role'' \<mapsto> ''user'', ''content'' \<mapsto> ''Q''],
                       [''role'' \<mapsto> ''assistant'', ''content'' \<mapsto> ''R'']])"
proof -
  let ?ms = "[[''role'' \<mapsto> ''system'', ''content'' \<mapsto> ''A''],
      [''role'' \<mapsto> ''user'', ''content'' \<mapsto> ''Q''],
      [''role'' \<mapsto> ''assistant'', ''content'' \<mapsto> ''R'']] :: message list"
  have f: "filter (\<lambda>m. \<not> is_system m) ?ms =
      [[''role'' \<mapsto> ''user'', ''content'' \<mapsto> ''Q''],
       [''role'' \<mapsto> ''assistant'', ''content'' \<mapsto> ''R'']]"
    by (simp add: is_system_def role_of_def dict_get_def)
  have s: "filter is_system ?ms = [[''role'' \<mapsto> ''system'', ''content'' \<mapsto> ''A'']]"
    by (simp add: is_system_def role_of_def dict_get_def)
  have p: "\<forall>m \<in> set ?ms. plain_message m"
    by (auto simp: plain_message_def)
  from f have n: "filter (\<lambda>m. \<not> is_system m) ?ms \<noteq> []" by simp
  note T = prepare_responses_messages_partition [of ?ms]
  from T have "fst (prepare_responses_messages ?ms) =
     (if filter is_system ?ms = [] then None
      else Some (join ''\<newline>\<newline>'' (map content_of (filter is_system ?ms))))"
    by (rule conjunct1)
  then have a: "fst (prepare_responses_messages ?ms) = Some ''A''"
    unfolding s by (simp add: content_of_def dict_get_def)
  from T n p have "snd (prepare_responses_messages ?ms) = filter (\<lambda>m. \<not> is_system m) ?ms"
    by blast
  then have b: "snd (prepare_responses_messages ?ms) =
      [[''role'' \<mapsto> ''user'', ''content'' \<mapsto> ''Q''],
       [''role'' \<mapsto> ''assistant'', ''content'' \<mapsto> ''R'']]"
    unfolding f .
  from a b have "prepare_responses_messages ?ms =
      (Some ''A'', [[''role'' \<mapsto> ''user'', ''content'' \<mapsto> ''Q''],
                    [''role'' \<mapsto> ''assistant'', ''content'' \<mapsto> ''R'']])"
    by (metis prod.collapse)
  moreover from p have "list_all plain_message ?ms" by (simp only: list_all_iff)
  ultimately show ?thesis using n by blast
qed

text \<open>
  Claim C2.  When every message of the input has the role \<open>system\<close> (in particular when
  the input is empty) the conversation is the single placeholder, a user message with
  empty content; hence the conversation is never the empty list.
\<close>

theorem prepare_responses_messages_placeholder:
  "((\<forall>m \<in> set ms. is_system m) \<longrightarrow>
      snd (prepare_responses_messages ms) = [[''role'' \<mapsto> ''user'', ''content'' \<mapsto> '''']])
   \<and> snd (prepare_responses_messages []) = [[''role'' \<mapsto> ''user'', ''content'' \<mapsto> '''']]
   \<and> snd (prepare_responses_messages ms) \<noteq> []"
proof (intro conjI impI)
  assume "\<forall>m \<in> set ms. is_system m"
  then have "filter (\<lambda>m. \<not> is_system m) ms = []" by (simp add: filter_empty_conv)
  then show "snd (prepare_responses_messages ms) = [[''role'' \<mapsto> ''user'', ''content'' \<mapsto> '''']]"
    by (simp add: prepare_responses_messages_filter placeholder_def)
next
  show "snd (prepare_responses_messages []) = [[''role'' \<mapsto> ''user'', ''content'' \<mapsto> '''']]"
    by (simp add: prepare_responses_messages_def)
next
  show "snd (prepare_responses_messages ms) \<noteq> []"
    by (simp add: prepare_responses_messages_filter)
qed

theorem prepare_responses_messages_placeholder_witness:
  "list_all is_system [[''role'' \<mapsto> ''system'', ''content'' \<mapsto> ''A'']]
   \<and> snd (prepare_responses_messages [[''role'' \<mapsto> ''system'', ''content'' \<mapsto> ''A'']])
       = [[''role'' \<mapsto> ''user'', ''content'' \<mapsto> '''']]"
proof -
  have h: "\<forall>m \<in> set [[''role'' \<mapsto> ''system'', ''content'' \<mapsto> ''A'']]. is_system m"
    by (simp add: is_system_def role_of_def dict_get_def)
  with prepare_responses_messages_placeholder [of "[[''role'' \<mapsto> ''system'', ''content'' \<mapsto> ''A'']]"]
  have "snd (prepare_responses_messages [[''role'' \<mapsto> ''system'', ''content'' \<mapsto> ''A'']])
       = [[''role'' \<mapsto> ''user'', ''content'' \<mapsto> '''']]" by blast
  moreover from h have "list_all is_system [[''role'' \<mapsto> ''system'', ''content'' \<mapsto> ''A'']]"
    by (simp only: list_all_iff)
  ultimately show ?thesis by blast
qed

section \<open>Properties of \<open>extract_response_text\<close>\<close>












section \<open>Properties of \<open>response_to_dict\<close>\<close>

lemma map_of_setdefault:
  "map_of (setdefault d k v) k' =
     (if k' = k then (case map_of d k of None \<Rightarrow> Some v | Some w \<Rightarrow> Some w) else map_of d k')"
  by (auto simp: setdefault_def map_add_def split: option.splits)

lemma response_to_dict_usage:
  assumes "map_of d ''usage'' = Some (JDict u)"
  shows "response_to_dict d =
     AList.update ''usage''
       (JDict (setdefault (setdefault u ''prompt_tokens'' (json_get u ''input_tokens''))
                 ''completion_tokens'' (json_get u ''output_tokens''))) d"
  using assms by (simp add: response_to_dict_def Let_def)

text \<open>
  Claim C4.  When the dumped response holds a dictionary under \<open>usage\<close>, the result holds
  a dictionary there in which \<open>prompt_tokens\<close> and \<open>completion_tokens\<close> are present:
  each keeps the value it had, and a missing one takes the value of \<open>input_tokens\<close>,
  respectively \<open>output_tokens\<close> (\<open>None\<close> when that is missing too).  Every other key of
  the usage dictionary and of the response is unchanged.  For the usage
  \<open>{"input_tokens": 3, "output_tokens": 5}\<close> the result has \<open>prompt_tokens = 3\<close> and
  \<open>completion_tokens = 5\<close> after the two original fields.
\<close>

theorem response_to_dict_usage_aliases:
  "(map_of d ''usage'' = Some (JDict u) \<longrightarrow>
      (\<exists>u'. map_of (response_to_dict d) ''usage'' = Some (JDict u')
         \<and> map_of u' ''prompt_tokens'' =
             Some (case map_of u ''prompt_tokens'' of Some v \<Rightarrow> v | None \<Rightarrow> json_get u ''input_tokens'')
         \<and> map_of u' ''completion_tokens'' =
             Some (case map_of u ''completion_tokens'' of Some v \<Rightarrow> v | None \<Rightarrow> json_get u ''output_tokens'')
         \<and> (\<forall>k. k \<noteq> ''prompt_tokens'' \<and> k \<noteq> ''completion_tokens'' \<longrightarrow> map_of u' k = map_of u k))
      \<and> (\<forall>k. k \<noteq> ''usage'' \<longrightarrow> map_of (response_to_dict d) k = map_of d k))
   \<and> response_to_dict [(''usage'', JDict [(''input_tokens'', JInt 3), (''output_tokens'', JInt 5)])]
       = [(''usage'', JDict [(''input_tokens'', JInt 3), (''output_tokens'', JInt 5),
                             (''prompt_tokens'', JInt 3), (''completion_tokens'', JInt 5)])]"
proof (intro conjI impI)
  assume u: "map_of d ''usage'' = Some (JDict u)"
  let ?u' = "setdefault (setdefault u ''prompt_tokens'' (json_get u ''input_tokens''))
                 ''completion_tokens'' (json_get u ''output_tokens'')"
  have r: "response_to_dict d = AList.update ''usage'' (JDict ?u') d"
    using u by (rule response_to_dict_usage)
  have "map_of (response_to_dict d) ''usage'' = Some (JDict ?u')"
    by (simp add: r update_conv')
  moreover have "map_of ?u' ''prompt_tokens'' =
      Some (case map_of u ''prompt_tokens'' of Some v \<Rightarrow> v | None \<Rightarrow> json_get u ''input_tokens'')"
    by (simp add: map_of_setdefault split: option.splits)
  moreover have "map_of ?u' ''completion_tokens'' =
      Some (case map_of u ''completion_tokens'' of Some v \<Rightarrow> v | None \<Rightarrow> json_get u ''output_tokens'')"
    by (simp add: map_of_setdefault split: option.splits)
  moreover have "\<forall>k. k \<noteq> ''prompt_tokens'' \<and> k \<noteq> ''completion_tokens'' \<longrightarrow> map_of ?u' k = map_of u k"
    by (simp add: map_of_setdefault)
  ultimately show "\<exists>u'. map_of (response_to_dict d) ''usage'' = Some (JDict u')
         \<and> map_of u' ''prompt_tokens'' =
             Some (case map_of u ''prompt_tokens'' of Some v \<Rightarrow> v | None \<Rightarrow> json_get u ''input_tokens'')
         \<and> map_of u' ''completion_tokens'' =
             Some (case map_of u ''completion_tokens'' of Some v \<Rightarrow> v | None \<Rightarrow> json_get u ''output_tokens'')
         \<and> (\<forall>k. k \<noteq> ''prompt_tokens'' \<and> k \<noteq> ''completion_tokens'' \<longrightarrow> map_of u' k = map_of u k)"
    by blast
  show "\<forall>k. k \<noteq> ''usage'' \<longrightarrow> map_of (response_to_dict d) k = map_of d k"
    by (simp add: r update_conv')
next
  show "response_to_dict [(''usage'', JDict [(''input_tokens'', JInt 3), (''output_tokens'', JInt 5)])]
       = [(''usage'', JDict [(''input_tokens'', JInt 3), (''output_tokens'', JInt 5),
                             (''prompt_tokens'', JInt 3), (''completion_tokens'', JInt 5)])]"
    by (simp add: response_to_dict_def json_get_def setdefault_def)
qed

theorem response_to_dict_usage_aliases_witness:
  "map_of [(''id'', JStr ''r1''), (''usage'', JDict [(''input_tokens'', JInt 3), (''prompt_tokens'', JInt 7)])] ''usage''
     = Some (JDict [(''input_tokens'', JInt 3), (''prompt_tokens'', JInt 7)])
   \<and> (\<exists>u'. map_of (response_to_dict
          [(''id'', JStr ''r1''), (''usage'', JDict [(''input_tokens'', JInt 3), (''prompt_tokens'', JInt 7)])])
          ''usage'' = Some (JDict u')
        \<and> map_of u' ''prompt_tokens'' = Some (JInt 7)
        \<and> map_of u' ''completion_tokens'' = Some JNull
        \<and> map_of u' ''input_tokens'' = Some (JInt 3))
   \<and> map_of (response_to_dict
          [(''id'', JStr ''r1''), (''usage'', JDict [(''input_tokens'', JInt 3), (''prompt_tokens'', JInt 7)])])
          ''id'' = Some (JStr ''r1'')"
proof -
  let ?u = "[(''input_tokens'', JInt 3), (''prompt_tokens'', JInt 7)]"
  let ?d = "[(''id'', JStr ''r1''), (''usage'', JDict ?u)]"
  have h: "map_of ?d ''usage'' = Some (JDict ?u)" by simp
  with response_to_dict_usage_aliases [of ?d ?u]
  obtain u' where 1: "map_of (response_to_dict ?d) ''usage'' = Some (JDict u')"
    and 2: "map_of u' ''prompt_tokens'' =
             Some (case map_of ?u ''prompt_tokens'' of Some v \<Rightarrow> v | None \<Rightarrow> json_get ?u ''input_tokens'')"
    and 3: "map_of u' ''completion_tokens'' =
             Some (case map_of ?u ''completion_tokens'' of Some v \<Rightarrow> v | None \<Rightarrow> json_get ?u ''output_tokens'')"
    and 4: "\<forall>k. k \<noteq> ''prompt_tokens'' \<and> k \<noteq> ''completion_tokens'' \<longrightarrow> map_of u' k = map_of ?u k"
    and 5: "\<forall>k. k \<noteq> ''usage'' \<longrightarrow> map_of (response_to_dict ?d) k = map_of ?d k"
    by blast
  from 2 have q2: "map_of u' ''prompt_tokens'' = Some (JInt 7)" by simp
  from 3 have q3: "map_of u' ''completion_tokens'' = Some JNull" by (simp add: json_get_def)
  from 4 have q4: "map_of u' ''input_tokens'' = Some (JInt 3)" by simp
  from 5 have q5: "map_of (response_to_dict ?d) ''id'' = Some (JStr ''r1'')" by simp
  from h 1 q2 q3 q4 q5 show ?thesis by blast
qed

section \<open>Properties of the client factories\<close>

lemma truthy_iff: "truthy v \<longleftrightarrow> (\<exists>c cs. v = Some (c # cs))"
  by (cases v) (auto simp: truthy_def neq_Nil_conv)

lemma not_truthy_iff: "\<not> truthy v \<longleftrightarrow> v = None \<or> v = Some []"
  by (cases v) (auto simp: truthy_def)

lemma get_llm_client_body_fail:
  "\<not> truthy (env ''OPENROUTER_API_KEY'') \<Longrightarrow>
   get_llm_client_body env p =
     (Inl (RuntimeError
        ''OPENROUTER_API_KEY is not set. Configure your OpenRouter API key in the environment before running the pipeline.''),
      p)"
  by (auto simp: not_truthy_iff get_llm_client_body_def)

lemma get_llm_client_body_ok:
  "env ''OPENROUTER_API_KEY'' = Some k \<Longrightarrow> k \<noteq> [] \<Longrightarrow>
   get_llm_client_body env p =
     (Inr (length (heap p)),
      p\<lparr>heap := heap p @
          [\<lparr>api_key = k,
            base_url = dict_get env ''OPENROUTER_BASE_URL'' ''https://openrouter.ai/api/v1'',
            default_headers = build_default_headers env\<rparr>]\<rparr>)"
  by (cases k) (simp_all add: get_llm_client_body_def OpenAI_def)

lemma get_openrouter_client_body_fail:
  "\<not> truthy (env ''OPENROUTER_API_KEY'') \<Longrightarrow>
   get_openrouter_client_body env p =
     (Inl (EnvironmentError ''OPENROUTER_API_KEY must be set to use the OpenRouter client.''), p)"
  by (auto simp: not_truthy_iff get_openrouter_client_body_def)

lemma get_openrouter_client_body_ok:
  "env ''OPENROUTER_API_KEY'' = Some k \<Longrightarrow> k \<noteq> [] \<Longrightarrow>
   get_openrouter_client_body env p =
     (Inr (length (heap p)),
      p\<lparr>heap := heap p @
          [\<lparr>api_key = k,
            base_url = dict_get env ''OPENROUTER_BASE_URL'' ''https://openrouter.ai/api/v1'',
            default_headers =
              Some (optional_header env ''OPENROUTER_APP_NAME'' ''X-Title''
                     (optional_header env ''OPENROUTER_REFERER'' ''HTTP-Referer'' []))\<rparr>]\<rparr>)"
  by (cases k) (simp_all add: get_openrouter_client_body_def OpenAI_def)

lemma get_llm_client_cached:
  "llm_client_cache p = Some r \<Longrightarrow> get_llm_client env p = (Inr r, p)"
  by (simp add: get_llm_client_def)

lemma get_openrouter_client_cached:
  "openrouter_client_cache p = Some r \<Longrightarrow> get_openrouter_client env p = (Inr r, p)"
  by (simp add: get_openrouter_client_def)

lemma get_llm_client_fail:
  "llm_client_cache p = None \<Longrightarrow> \<not> truthy (env ''OPENROUTER_API_KEY'') \<Longrightarrow>
   get_llm_client env p =
     (Inl (RuntimeError
        ''OPENROUTER_API_KEY is not set. Configure your OpenRouter API key in the environment before running the pipeline.''),
      p)"
  by (simp add: get_llm_client_def get_llm_client_body_fail)

lemma get_openrouter_client_fail:
  "openrouter_client_cache p = None \<Longrightarrow> \<not> truthy (env ''OPENROUTER_API_KEY'') \<Longrightarrow>
   get_openrouter_client env p =
     (Inl (EnvironmentError ''OPENROUTER_API_KEY must be set to use the OpenRouter client.''), p)"
  by (simp add: get_openrouter_client_def get_openrouter_client_body_fail)

lemma get_llm_client_ok:
  "llm_client_cache p = None \<Longrightarrow> env ''OPENROUTER_API_KEY'' = Some k \<Longrightarrow> k \<noteq> [] \<Longrightarrow>
   get_llm_client env p =
     (Inr (length (heap p)),
      p\<lparr>heap := heap p @
          [\<lparr>api_key = k,
            base_url = dict_get env ''OPENROUTER_BASE_URL'' ''https://openrouter.ai/api/v1'',
            default_headers = build_default_headers env\<rparr>],
        llm_client_cache := Some (length (heap p))\<rparr>)"
  by (simp add: get_llm_client_def get_llm_client_body_ok)

lemma get_openrouter_client_ok:
  "openrouter_client_cache p = None \<Longrightarrow> env ''OPENROUTER_API_KEY'' = Some k \<Longrightarrow> k \<noteq> [] \<Longrightarrow>
   get_openrouter_client env p =
     (Inr (length (heap p)),
      p\<lparr>heap := heap p @
          [\<lparr>api_key = k,
            base_url = dict_get env ''OPENROUTER_BASE_URL'' ''https://openrouter.ai/api/v1'',
            default_headers =
              Some (optional_header env ''OPENROUTER_APP_NAME'' ''X-Title''
                     (optional_header env ''OPENROUTER_REFERER'' ''HTTP-Referer'' []))\<rparr>],
        openrouter_client_cache := Some (length (heap p))\<rparr>)"
  by (simp add: get_openrouter_client_def get_openrouter_client_body_ok)

text \<open>The three ways a call of a factory can go.\<close>

lemma get_llm_client_cases:
  obtains (cached) r where "llm_client_cache p = Some r" "get_llm_client env p = (Inr r, p)"
  | (failed) "llm_client_cache p = None" "\<not> truthy (env ''OPENROUTER_API_KEY'')"
      "get_llm_client env p =
         (Inl (RuntimeError
            ''OPENROUTER_API_KEY is not set. Configure your OpenRouter API key in the environment before running the pipeline.''),
          p)"
  | (built) c where "llm_client_cache p = None" "truthy (env ''OPENROUTER_API_KEY'')"
      "get_llm_client env p =
         (Inr (length (heap p)), p\<lparr>heap := heap p @ [c], llm_client_cache := Some (length (heap p))\<rparr>)"
proof (cases "llm_client_cache p")
  case (Some r)
  then show ?thesis using cached get_llm_client_cached by blast
next
  case None
  show ?thesis
  proof (cases "truthy (env ''OPENROUTER_API_KEY'')")
    case False
    with None show ?thesis using failed get_llm_client_fail by blast
  next
    case True
    then obtain k where "env ''OPENROUTER_API_KEY'' = Some k" "k \<noteq> []"
      by (auto simp: truthy_iff)
    with None True show ?thesis using built get_llm_client_ok by blast
  qed
qed

lemma get_openrouter_client_cases:
  obtains (cached) r where "openrouter_client_cache p = Some r" "get_openrouter_client env p = (Inr r, p)"
  | (failed) "openrouter_client_cache p = None" "\<not> truthy (env ''OPENROUTER_API_KEY'')"
      "get_openrouter_client env p =
         (Inl (EnvironmentError ''OPENROUTER_API_KEY must be set to use the OpenRouter client.''), p)"
  | (built) c where "openrouter_client_cache p = None" "truthy (env ''OPENROUTER_API_KEY'')"
      "get_openrouter_client env p =
         (Inr (length (heap p)),
          p\<lparr>heap := heap p @ [c], openrouter_client_cache := Some (length (heap p))\<rparr>)"
proof (cases "openrouter_client_cache p")
  case (Some r)
  then show ?thesis using cached get_openrouter_client_cached by blast
next
  case None
  show ?thesis
  proof (cases "truthy (env ''OPENROUTER_API_KEY'')")
    case False
    with None show ?thesis using failed get_openrouter_client_fail by blast
  next
    case True
    then obtain k where "env ''OPENROUTER_API_KEY'' = Some k" "k \<noteq> []"
      by (auto simp: truthy_iff)
    with None True show ?thesis using built get_openrouter_client_ok by blast
  qed
qed

lemma get_llm_client_keeps_openrouter_cache:
  "openrouter_client_cache (snd (get_llm_client env p)) = openrouter_client_cache p"
  by (cases rule: get_llm_client_cases [where p = p and env = env]) simp_all

lemma get_openrouter_client_keeps_llm_cache:
  "llm_client_cache (snd (get_openrouter_client env p)) = llm_client_cache p"
  by (cases rule: get_openrouter_client_cases [where p = p and env = env]) simp_all

lemma get_llm_client_sets_cache:
  "fst (get_llm_client env p) = Inr r \<Longrightarrow> llm_client_cache (snd (get_llm_client env p)) = Some r"
  by (cases rule: get_llm_client_cases [where p = p and env = env]) auto

lemma get_openrouter_client_sets_cache:
  "fst (get_openrouter_client env p) = Inr r \<Longrightarrow>
   openrouter_client_cache (snd (get_openrouter_client env p)) = Some r"
  by (cases rule: get_openrouter_client_cases [where p = p and env = env]) auto

lemma step_keeps_llm_cache:
  "llm_client_cache p = Some r \<Longrightarrow> llm_client_cache (snd (step c p)) = Some r"
  by (cases c) (simp_all add: get_llm_client_cached get_openrouter_client_keeps_llm_cache)

lemma step_keeps_openrouter_cache:
  "openrouter_client_cache p = Some r \<Longrightarrow> openrouter_client_cache (snd (step c p)) = Some r"
  by (cases c) (simp_all add: get_openrouter_client_cached get_llm_client_keeps_openrouter_cache)

lemma exec_keeps_llm_cache:
  "llm_client_cache p = Some r \<Longrightarrow> llm_client_cache (exec cs p) = Some r"
  by (induction cs arbitrary: p) (simp_all add: step_keeps_llm_cache)

lemma exec_keeps_openrouter_cache:
  "openrouter_client_cache p = Some r \<Longrightarrow> openrouter_client_cache (exec cs p) = Some r"
  by (induction cs arbitrary: p) (simp_all add: step_keeps_openrouter_cache)

lemma constructions_llm_cached:
  "llm_client_cache p = Some r \<Longrightarrow> constructions is_llm_call cs p = 0"
proof (induction cs arbitrary: p)
  case Nil
  show ?case by simp
next
  case (Cons c cs)
  from Cons.prems have "llm_client_cache (snd (step c p)) = Some r"
    by (rule step_keeps_llm_cache)
  then have "constructions is_llm_call cs (snd (step c p)) = 0"
    by (rule Cons.IH)
  moreover have "is_llm_call c \<Longrightarrow> snd (step c p) = p"
    using Cons.prems by (cases c) (simp_all add: get_llm_client_cached)
  ultimately show ?case by (simp add: Let_def)
qed

lemma constructions_openrouter_cached:
  "openrouter_client_cache p = Some r \<Longrightarrow> constructions (\<lambda>c. \<not> is_llm_call c) cs p = 0"
proof (induction cs arbitrary: p)
  case Nil
  show ?case by simp
next
  case (Cons c cs)
  from Cons.prems have "openrouter_client_cache (snd (step c p)) = Some r"
    by (rule step_keeps_openrouter_cache)
  then have "constructions (\<lambda>c. \<not> is_llm_call c) cs (snd (step c p)) = 0"
    by (rule Cons.IH)
  moreover have "\<not> is_llm_call c \<Longrightarrow> snd (step c p) = p"
    using Cons.prems by (cases c) (simp_all add: get_openrouter_client_cached)
  ultimately show ?case by (simp add: Let_def)
qed

lemma constructions_llm_le_1: "constructions is_llm_call cs p \<le> 1"
proof (induction cs arbitrary: p)
  case Nil
  show ?case by simp
next
  case (Cons c cs)
  show ?case
  proof (cases c)
    case (Get_openrouter_client env)
    with Cons.IH [of "snd (get_openrouter_client env p)"] show ?thesis by (simp add: Let_def)
  next
    case c: (Get_llm_client env)
    show ?thesis
    proof (cases rule: get_llm_client_cases [where p = p and env = env])
      case (cached r)
      with c Cons.IH [of p] show ?thesis by (simp add: Let_def)
    next
      case failed
      with c Cons.IH [of p] show ?thesis by (simp add: Let_def)
    next
      case (built cl)
      let ?p' = "p\<lparr>heap := heap p @ [cl], llm_client_cache := Some (length (heap p))\<rparr>"
      have "constructions is_llm_call cs ?p' = 0"
        by (rule constructions_llm_cached [of _ "length (heap p)"]) simp
      with c built show ?thesis by (simp add: Let_def)
    qed
  qed
qed

lemma constructions_openrouter_le_1: "constructions (\<lambda>c. \<not> is_llm_call c) cs p \<le> 1"
proof (induction cs arbitrary: p)
  case Nil
  show ?case by simp
next
  case (Cons c cs)
  show ?case
  proof (cases c)
    case (Get_llm_client env)
    with Cons.IH [of "snd (get_llm_client env p)"] show ?thesis by (simp add: Let_def)
  next
    case c: (Get_openrouter_client env)
    show ?thesis
    proof (cases rule: get_openrouter_client_cases [where p = p and env = env])
      case (cached r)
      with c Cons.IH [of p] show ?thesis by (simp add: Let_def)
    next
      case failed
      with c Cons.IH [of p] show ?thesis by (simp add: Let_def)
    next
      case (built cl)
      let ?p' = "p\<lparr>heap := heap p @ [cl], openrouter_client_cache := Some (length (heap p))\<rparr>"
      have "constructions (\<lambda>c. \<not> is_llm_call c) cs ?p' = 0"
        by (rule constructions_openrouter_cached [of _ "length (heap p)"]) simp
      with c built show ?thesis by (simp add: Let_def)
    qed
  qed
qed

text \<open>
  Claim C6.  Once a call of a factory has returned a client, every later call of that
  factory in the process (after any further calls of either factory, under any
  environment) returns the same address and leaves the process state as it is: nothing
  is constructed and the environment has no influence.  Hence the calls of one factory
  construct at most one client in any run, from any state.
\<close>

theorem client_factory_singleton:
  "(fst (get_llm_client env p) = Inr r \<longrightarrow>
      get_llm_client env' (exec cs (snd (get_llm_client env p)))
        = (Inr r, exec cs (snd (get_llm_client env p))))
   \<and> (fst (get_openrouter_client env p) = Inr r \<longrightarrow>
      get_openrouter_client env' (exec cs (snd (get_openrouter_client env p)))
        = (Inr r, exec cs (snd (get_openrouter_client env p))))
   \<and> constructions is_llm_call cs p \<le> 1
   \<and> constructions (\<lambda>c. \<not> is_llm_call c) cs p \<le> 1"
proof (intro conjI impI)
  assume "fst (get_llm_client env p) = Inr r"
  then have "llm_client_cache (snd (get_llm_client env p)) = Some r"
    by (rule get_llm_client_sets_cache)
  then have "llm_client_cache (exec cs (snd (get_llm_client env p))) = Some r"
    by (rule exec_keeps_llm_cache)
  then show "get_llm_client env' (exec cs (snd (get_llm_client env p)))
        = (Inr r, exec cs (snd (get_llm_client env p)))"
    by (rule get_llm_client_cached)
next
  assume "fst (get_openrouter_client env p) = Inr r"
  then have "openrouter_client_cache (snd (get_openrouter_client env p)) = Some r"
    by (rule get_openrouter_client_sets_cache)
  then have "openrouter_client_cache (exec cs (snd (get_openrouter_client env p))) = Some r"
    by (rule exec_keeps_openrouter_cache)
  then show "get_openrouter_client env' (exec cs (snd (get_openrouter_client env p)))
        = (Inr r, exec cs (snd (get_openrouter_client env p)))"
    by (rule get_openrouter_client_cached)
next
  show "constructions is_llm_call cs p \<le> 1" by (rule constructions_llm_le_1)
next
  show "constructions (\<lambda>c. \<not> is_llm_call c) cs p \<le> 1" by (rule constructions_openrouter_le_1)
qed

theorem client_factory_singleton_witness:
  "fst (get_llm_client [''OPENROUTER_API_KEY'' \<mapsto> ''k''] new_process) = Inr 0
   \<and> get_llm_client Map.empty
        (exec [Get_openrouter_client [''OPENROUTER_API_KEY'' \<mapsto> ''k''], Get_llm_client Map.empty]
           (snd (get_llm_client [''OPENROUTER_API_KEY'' \<mapsto> ''k''] new_process)))
       = (Inr 0,
          exec [Get_openrouter_client [''OPENROUTER_API_KEY'' \<mapsto> ''k''], Get_llm_client Map.empty]
           (snd (get_llm_client [''OPENROUTER_API_KEY'' \<mapsto> ''k''] new_process)))
   \<and> fst (get_openrouter_client [''OPENROUTER_API_KEY'' \<mapsto> ''k''] new_process) = Inr 0
   \<and> get_openrouter_client Map.empty
        (exec [Get_llm_client [''OPENROUTER_API_KEY'' \<mapsto> ''k''], Get_openrouter_client Map.empty]
           (snd (get_openrouter_client [''OPENROUTER_API_KEY'' \<mapsto> ''k''] new_process)))
       = (Inr 0,
          exec [Get_llm_client [''OPENROUTER_API_KEY'' \<mapsto> ''k''], Get_openrouter_client Map.empty]
           (snd (get_openrouter_client [''OPENROUTER_API_KEY'' \<mapsto> ''k''] new_process)))"
proof -
  let ?env = "[''OPENROUTER_API_KEY'' \<mapsto> ''k'']"
  have a: "fst (get_llm_client ?env new_process) = Inr 0"
    by (simp add: get_llm_client_def get_llm_client_body_def OpenAI_def new_process_def)
  have b: "fst (get_openrouter_client ?env new_process) = Inr 0"
    by (simp add: get_openrouter_client_def get_openrouter_client_body_def OpenAI_def new_process_def)
  note T = client_factory_singleton [of ?env new_process 0 Map.empty]
  from a T [of "[Get_openrouter_client ?env, Get_llm_client Map.empty]"]
  have c: "get_llm_client Map.empty
        (exec [Get_openrouter_client ?env, Get_llm_client Map.empty] (snd (get_llm_client ?env new_process)))
       = (Inr 0, exec [Get_openrouter_client ?env, Get_llm_client Map.empty] (snd (get_llm_client ?env new_process)))"
    by blast
  from b T [of "[Get_llm_client ?env, Get_openrouter_client Map.empty]"]
  have d: "get_openrouter_client Map.empty
        (exec [Get_llm_client ?env, Get_openrouter_client Map.empty] (snd (get_openrouter_client ?env new_process)))
       = (Inr 0, exec [Get_llm_client ?env, Get_openrouter_client Map.empty] (snd (get_openrouter_client ?env new_process)))"
    by blast
  from a b c d show ?thesis by blast
qed




text \<open>
  Claim C10.  With \<open>OPENROUTER_API_KEY\<close> set to the empty text, each factory returns
  exactly what it returns when the variable is removed from the environment; when it
  has to construct the client, that is the error of the factory, and no client is made.
\<close>

theorem empty_credential_as_absent:
  "env ''OPENROUTER_API_KEY'' = Some [] \<longrightarrow>
     get_llm_client env p = get_llm_client (env(''OPENROUTER_API_KEY'' := None)) p
   \<and> get_openrouter_client env p = get_openrouter_client (env(''OPENROUTER_API_KEY'' := None)) p
   \<and> (llm_client_cache p = None \<longrightarrow>
        get_llm_client env p =
          (Inl (RuntimeError
             ''OPENROUTER_API_KEY is not set. Configure your OpenRouter API key in the environment before running the pipeline.''),
           p))
   \<and> (openrouter_client_cache p = None \<longrightarrow>
        get_openrouter_client env p =
          (Inl (EnvironmentError ''OPENROUTER_API_KEY must be set to use the OpenRouter client.''), p))"
proof (intro impI)
  assume k: "env ''OPENROUTER_API_KEY'' = Some []"
  let ?env' = "env(''OPENROUTER_API_KEY'' := None)"
  from k have n: "\<not> truthy (env ''OPENROUTER_API_KEY'')" by (simp add: truthy_def)
  have n': "\<not> truthy (?env' ''OPENROUTER_API_KEY'')" by (simp add: truthy_def)
  have a: "get_llm_client env p = get_llm_client ?env' p"
  proof (cases "llm_client_cache p")
    case None
    with n n' show ?thesis by (simp add: get_llm_client_fail)
  next
    case (Some r)
    then show ?thesis by (simp add: get_llm_client_cached)
  qed
  have b: "get_openrouter_client env p = get_openrouter_client ?env' p"
  proof (cases "openrouter_client_cache p")
    case None
    with n n' show ?thesis by (simp add: get_openrouter_client_fail)
  next
    case (Some r)
    then show ?thesis by (simp add: get_openrouter_client_cached)
  qed
  from n have c: "llm_client_cache p = None \<longrightarrow>
        get_llm_client env p =
          (Inl (RuntimeError
             ''OPENROUTER_API_KEY is not set. Configure your OpenRouter API key in the environment before running the pipeline.''),
           p)"
    by (simp add: get_llm_client_fail)
  from n have d: "openrouter_client_cache p = None \<longrightarrow>
        get_openrouter_client env p =
          (Inl (EnvironmentError ''OPENROUTER_API_KEY must be set to use the OpenRouter client.''), p)"
    by (simp add: get_openrouter_client_fail)
  from a b c d show "get_llm_client env p = get_llm_client ?env' p
   \<and> get_openrouter_client env p = get_openrouter_client ?env' p
   \<and> (llm_client_cache p = None \<longrightarrow>
        get_llm_client env p =
          (Inl (RuntimeError
             ''OPENROUTER_API_KEY is not set. Configure your OpenRouter API key in the environment before running the pipeline.''),
           p))
   \<and> (openrouter_client_cache p = None \<longrightarrow>
        get_openrouter_client env p =
          (Inl (EnvironmentError ''OPENROUTER_API_KEY must be set to use the OpenRouter client.''), p))"
    by blast
qed

theorem empty_credential_as_absent_witness:
  "[''OPENROUTER_API_KEY'' \<mapsto> ''''] ''OPENROUTER_API_KEY'' = Some []
   \<and> get_llm_client [''OPENROUTER_API_KEY'' \<mapsto> ''''] new_process =
        (Inl (RuntimeError
           ''OPENROUTER_API_KEY is not set. Configure your OpenRouter API key in the environment before running the pipeline.''),
         new_process)
   \<and> get_openrouter_client [''OPENROUTER_API_KEY'' \<mapsto> ''''] new_process =
        (Inl (EnvironmentError ''OPENROUTER_API_KEY must be set to use the OpenRouter client.''), new_process)"
proof -
  let ?env = "[''OPENROUTER_API_KEY'' \<mapsto> '''']"
  have k: "?env ''OPENROUTER_API_KEY'' = Some []" by simp
  have c1: "llm_client_cache new_process = None" by (simp add: new_process_def)
  have c2: "openrouter_client_cache new_process = None" by (simp add: new_process_def)
  note T = empty_credential_as_absent [of ?env new_process]
  from T k c1 have a: "get_llm_client ?env new_process =
        (Inl (RuntimeError
           ''OPENROUTER_API_KEY is not set. Configure your OpenRouter API key in the environment before running the pipeline.''),
         new_process)" by blast
  from T k c2 have b: "get_openrouter_client ?env new_process =
        (Inl (EnvironmentError ''OPENROUTER_API_KEY must be set to use the OpenRouter client.''), new_process)"
    by blast
  from k a b show ?thesis by blast
qed

subsection \<open>Headers\<close>

lemma build_default_headers_referer:
  "header_value (build_default_headers env) ''HTTP-Referer'' =
     (if truthy (env ''OPENROUTER_HTTP_REFERER'') then env ''OPENROUTER_HTTP_REFERER'' else None)"
  by (auto simp: build_default_headers_def header_value_def py_or_def truthy_def Let_def
           split: option.splits list.splits)

lemma build_default_headers_title:
  "header_value (build_default_headers env) ''X-Title'' =
     (if truthy (env ''OPENROUTER_TITLE'') then env ''OPENROUTER_TITLE''
      else if truthy (env ''OPENROUTER_X_TITLE'') then env ''OPENROUTER_X_TITLE'' else None)"
  by (auto simp: build_default_headers_def header_value_def py_or_def truthy_def Let_def
           split: option.splits list.splits)

lemma build_default_headers_None:
  "build_default_headers env = None \<longleftrightarrow>
     \<not> truthy (env ''OPENROUTER_HTTP_REFERER'') \<and> \<not> truthy (env ''OPENROUTER_TITLE'')
     \<and> \<not> truthy (env ''OPENROUTER_X_TITLE'')"
  by (auto simp: build_default_headers_def py_or_def truthy_def Let_def
           split: option.splits list.splits)

lemma map_of_optional_header:
  "map_of (optional_header env name header hs) k =
     (if k = header \<and> truthy (env name) then env name else map_of hs k)"
  by (auto simp: optional_header_def truthy_def Let_def update_conv' split: option.splits list.splits)

lemma optional_header_unset:
  "\<not> truthy (env name) \<Longrightarrow> optional_header env name header hs = hs"
  by (auto simp: optional_header_def truthy_def Let_def split: option.splits list.splits)

lemma headers_passed_llm:
  assumes "llm_client_cache p = None" and "truthy (env ''OPENROUTER_API_KEY'')"
  shows "headers_passed (get_llm_client env p) = Some (build_default_headers env)"
proof -
  from assms(2) obtain k where "env ''OPENROUTER_API_KEY'' = Some k" "k \<noteq> []"
    by (auto simp: truthy_iff)
  with assms(1) show ?thesis
    by (simp add: get_llm_client_ok headers_passed_def deref_def)
qed

lemma headers_passed_openrouter:
  assumes "openrouter_client_cache p = None" and "truthy (env ''OPENROUTER_API_KEY'')"
  shows "headers_passed (get_openrouter_client env p) =
     Some (Some (optional_header env ''OPENROUTER_APP_NAME'' ''X-Title''
                  (optional_header env ''OPENROUTER_REFERER'' ''HTTP-Referer'' [])))"
proof -
  from assms(2) obtain k where "env ''OPENROUTER_API_KEY'' = Some k" "k \<noteq> []"
    by (auto simp: truthy_iff)
  with assms(1) show ?thesis
    by (simp add: get_openrouter_client_ok headers_passed_def deref_def)
qed

text \<open>
  Claim C8.  \<open>_build_default_headers\<close> accepts two variables for the \<open>X-Title\<close> header.
  The header has the value of \<open>OPENROUTER_TITLE\<close> whenever that is set to a non-empty
  text, whatever \<open>OPENROUTER_X_TITLE\<close> holds; otherwise it has the value of
  \<open>OPENROUTER_X_TITLE\<close> when that is a non-empty text, and there is no \<open>X-Title\<close> header
  when neither variable holds a non-empty text.
\<close>

theorem x_title_first_present_wins:
  "(env ''OPENROUTER_TITLE'' = Some t \<and> t \<noteq> [] \<longrightarrow>
      header_value (build_default_headers env) ''X-Title'' = Some t)
   \<and> (\<not> truthy (env ''OPENROUTER_TITLE'') \<and> env ''OPENROUTER_X_TITLE'' = Some t \<and> t \<noteq> [] \<longrightarrow>
      header_value (build_default_headers env) ''X-Title'' = Some t)
   \<and> (\<not> truthy (env ''OPENROUTER_TITLE'') \<and> \<not> truthy (env ''OPENROUTER_X_TITLE'') \<longrightarrow>
      header_value (build_default_headers env) ''X-Title'' = None)"
  by (simp add: build_default_headers_title truthy_def)

theorem x_title_first_present_wins_witness:
  "header_value (build_default_headers [''OPENROUTER_TITLE'' \<mapsto> ''new'', ''OPENROUTER_X_TITLE'' \<mapsto> ''old''])
     ''X-Title'' = Some ''new''
   \<and> header_value (build_default_headers [''OPENROUTER_TITLE'' \<mapsto> '''', ''OPENROUTER_X_TITLE'' \<mapsto> ''old''])
     ''X-Title'' = Some ''old''
   \<and> header_value (build_default_headers [''OPENROUTER_X_TITLE'' \<mapsto> ''old'']) ''X-Title'' = Some ''old''
   \<and> header_value (build_default_headers [''OPENROUTER_TITLE'' \<mapsto> '''']) ''X-Title'' = None"
proof -
  let ?e1 = "[''OPENROUTER_TITLE'' \<mapsto> ''new'', ''OPENROUTER_X_TITLE'' \<mapsto> ''old'']"
  let ?e2 = "[''OPENROUTER_TITLE'' \<mapsto> '''', ''OPENROUTER_X_TITLE'' \<mapsto> ''old'']"
  let ?e3 = "[''OPENROUTER_X_TITLE'' \<mapsto> ''old'']"
  let ?e4 = "[''OPENROUTER_TITLE'' \<mapsto> '''']"
  have "?e1 ''OPENROUTER_TITLE'' = Some ''new'' \<and> ''new'' \<noteq> []" by simp
  with x_title_first_present_wins [of ?e1 "''new''"]
  have a: "header_value (build_default_headers ?e1) ''X-Title'' = Some ''new''" by blast
  have "\<not> truthy (?e2 ''OPENROUTER_TITLE'') \<and> ?e2 ''OPENROUTER_X_TITLE'' = Some ''old'' \<and> ''old'' \<noteq> []"
    by (simp add: truthy_def)
  with x_title_first_present_wins [of ?e2 "''old''"]
  have b: "header_value (build_default_headers ?e2) ''X-Title'' = Some ''old''" by blast
  have "\<not> truthy (?e3 ''OPENROUTER_TITLE'') \<and> ?e3 ''OPENROUTER_X_TITLE'' = Some ''old'' \<and> ''old'' \<noteq> []"
    by (simp add: truthy_def)
  with x_title_first_present_wins [of ?e3 "''old''"]
  have c: "header_value (build_default_headers ?e3) ''X-Title'' = Some ''old''" by blast
  have "\<not> truthy (?e4 ''OPENROUTER_TITLE'') \<and> \<not> truthy (?e4 ''OPENROUTER_X_TITLE'')"
    by (simp add: truthy_def)
  with x_title_first_present_wins [of ?e4]
  have d: "header_value (build_default_headers ?e4) ''X-Title'' = None" by blast
  from a b c d show ?thesis by blast
qed

lemma optional_headers_empty:
  "optional_header env ''OPENROUTER_APP_NAME'' ''X-Title''
     (optional_header env ''OPENROUTER_REFERER'' ''HTTP-Referer'' []) = [] \<longleftrightarrow>
   \<not> truthy (env ''OPENROUTER_REFERER'') \<and> \<not> truthy (env ''OPENROUTER_APP_NAME'')"
  by (auto simp: optional_header_def truthy_def Let_def split: option.splits list.splits)

text \<open>
  Claim C7, as the code has it.  A call of \<open>get_llm_client\<close> that constructs the client
  passes no header dictionary (\<open>None\<close>) exactly when none of
  \<open>OPENROUTER_HTTP_REFERER\<close>, \<open>OPENROUTER_TITLE\<close> and \<open>OPENROUTER_X_TITLE\<close> holds a
  non-empty text.  A call of \<open>get_openrouter_client\<close> that constructs the client always
  passes a dictionary, the empty one exactly when neither \<open>OPENROUTER_REFERER\<close> nor
  \<open>OPENROUTER_APP_NAME\<close> holds a non-empty text.  In each factory a header is attached,
  with the value of its variable, exactly when that variable holds a non-empty text.
  Whether the other factory has already cached its client plays no role.
\<close>

theorem default_headers_omitted_or_attached:
  "(llm_client_cache p = None \<and> truthy (env ''OPENROUTER_API_KEY'') \<longrightarrow>
      (headers_passed (get_llm_client env p) = Some None \<longleftrightarrow>
         \<not> truthy (env ''OPENROUTER_HTTP_REFERER'') \<and> \<not> truthy (env ''OPENROUTER_TITLE'')
         \<and> \<not> truthy (env ''OPENROUTER_X_TITLE''))
      \<and> header_passed (get_llm_client env p) ''HTTP-Referer'' =
           (if truthy (env ''OPENROUTER_HTTP_REFERER'') then env ''OPENROUTER_HTTP_REFERER'' else None)
      \<and> header_passed (get_llm_client env p) ''X-Title'' =
           (if truthy (env ''OPENROUTER_TITLE'') then env ''OPENROUTER_TITLE''
            else if truthy (env ''OPENROUTER_X_TITLE'') then env ''OPENROUTER_X_TITLE'' else None))
   \<and> (openrouter_client_cache p = None \<and> truthy (env ''OPENROUTER_API_KEY'') \<longrightarrow>
      headers_passed (get_openrouter_client env p) \<noteq> Some None
      \<and> (headers_passed (get_openrouter_client env p) = Some (Some []) \<longleftrightarrow>
         \<not> truthy (env ''OPENROUTER_REFERER'') \<and> \<not> truthy (env ''OPENROUTER_APP_NAME''))
      \<and> header_passed (get_openrouter_client env p) ''HTTP-Referer'' =
           (if truthy (env ''OPENROUTER_REFERER'') then env ''OPENROUTER_REFERER'' else None)
      \<and> header_passed (get_openrouter_client env p) ''X-Title'' =
           (if truthy (env ''OPENROUTER_APP_NAME'') then env ''OPENROUTER_APP_NAME'' else None))"
proof (intro conjI impI)
  assume a: "llm_client_cache p = None \<and> truthy (env ''OPENROUTER_API_KEY'')"
  then have l: "headers_passed (get_llm_client env p) = Some (build_default_headers env)"
    by (simp add: headers_passed_llm)
  show "headers_passed (get_llm_client env p) = Some None \<longleftrightarrow>
         \<not> truthy (env ''OPENROUTER_HTTP_REFERER'') \<and> \<not> truthy (env ''OPENROUTER_TITLE'')
         \<and> \<not> truthy (env ''OPENROUTER_X_TITLE'')"
    by (simp add: l build_default_headers_None)
  show "header_passed (get_llm_client env p) ''HTTP-Referer'' =
        (if truthy (env ''OPENROUTER_HTTP_REFERER'') then env ''OPENROUTER_HTTP_REFERER'' else None)"
    by (simp add: header_passed_def l build_default_headers_referer)
  show "header_passed (get_llm_client env p) ''X-Title'' =
        (if truthy (env ''OPENROUTER_TITLE'') then env ''OPENROUTER_TITLE''
         else if truthy (env ''OPENROUTER_X_TITLE'') then env ''OPENROUTER_X_TITLE'' else None)"
    by (simp add: header_passed_def l build_default_headers_title)
next
  assume a: "openrouter_client_cache p = None \<and> truthy (env ''OPENROUTER_API_KEY'')"
  then have r: "headers_passed (get_openrouter_client env p) =
     Some (Some (optional_header env ''OPENROUTER_APP_NAME'' ''X-Title''
                  (optional_header env ''OPENROUTER_REFERER'' ''HTTP-Referer'' [])))"
    by (simp add: headers_passed_openrouter)
  show "headers_passed (get_openrouter_client env p) \<noteq> Some None"
    by (simp add: r)
  show "headers_passed (get_openrouter_client env p) = Some (Some []) \<longleftrightarrow>
         \<not> truthy (env ''OPENROUTER_REFERER'') \<and> \<not> truthy (env ''OPENROUTER_APP_NAME'')"
    by (simp add: r optional_headers_empty)
  show "header_passed (get_openrouter_client env p) ''HTTP-Referer'' =
        (if truthy (env ''OPENROUTER_REFERER'') then env ''OPENROUTER_REFERER'' else None)"
    by (simp add: header_passed_def r header_value_def map_of_optional_header)
  show "header_passed (get_openrouter_client env p) ''X-Title'' =
        (if truthy (env ''OPENROUTER_APP_NAME'') then env ''OPENROUTER_APP_NAME'' else None)"
    by (simp add: header_passed_def r header_value_def map_of_optional_header)
qed

theorem default_headers_omitted_or_attached_witness:
  "headers_passed
     (get_llm_client [''OPENROUTER_API_KEY'' \<mapsto> ''k'']
        \<lparr>heap = [\<lparr>api_key = ''k'', base_url = ''u'', default_headers = Some []\<rparr>],
         llm_client_cache = None, openrouter_client_cache = Some 0\<rparr>) = Some None
   \<and> headers_passed
     (get_openrouter_client [''OPENROUTER_API_KEY'' \<mapsto> ''k'']
        \<lparr>heap = [\<lparr>api_key = ''k'', base_url = ''u'', default_headers = None\<rparr>],
         llm_client_cache = Some 0, openrouter_client_cache = None\<rparr>) = Some (Some [])
   \<and> header_passed
        (get_llm_client [''OPENROUTER_API_KEY'' \<mapsto> ''k'', ''OPENROUTER_HTTP_REFERER'' \<mapsto> ''https://lab.example'']
           \<lparr>heap = [\<lparr>api_key = ''k'', base_url = ''u'', default_headers = Some []\<rparr>],
            llm_client_cache = None, openrouter_client_cache = Some 0\<rparr>) ''HTTP-Referer''
       = Some ''https://lab.example''
   \<and> header_passed
        (get_openrouter_client [''OPENROUTER_API_KEY'' \<mapsto> ''k'', ''OPENROUTER_APP_NAME'' \<mapsto> ''planner'']
           new_process) ''X-Title'' = Some ''planner''"
proof -
  let ?e = "[''OPENROUTER_API_KEY'' \<mapsto> ''k'']"
  let ?f = "[''OPENROUTER_API_KEY'' \<mapsto> ''k'', ''OPENROUTER_HTTP_REFERER'' \<mapsto> ''https://lab.example'']"
  let ?g = "[''OPENROUTER_API_KEY'' \<mapsto> ''k'', ''OPENROUTER_APP_NAME'' \<mapsto> ''planner'']"
  let ?p = "\<lparr>heap = [\<lparr>api_key = ''k'', base_url = ''u'', default_headers = Some []\<rparr>],
         llm_client_cache = None, openrouter_client_cache = Some 0\<rparr>"
  let ?q = "\<lparr>heap = [\<lparr>api_key = ''k'', base_url = ''u'', default_headers = None\<rparr>],
         llm_client_cache = Some 0, openrouter_client_cache = None\<rparr>"
  have cp: "llm_client_cache ?p = None" by simp
  have cq: "openrouter_client_cache ?q = None" by simp
  have cn: "openrouter_client_cache new_process = None" by (simp add: new_process_def)
  have ke: "truthy (?e ''OPENROUTER_API_KEY'')" by (simp add: truthy_def)
  have kf: "truthy (?f ''OPENROUTER_API_KEY'')" by (simp add: truthy_def)
  have kg: "truthy (?g ''OPENROUTER_API_KEY'')" by (simp add: truthy_def)
  have ue: "\<not> truthy (?e ''OPENROUTER_HTTP_REFERER'') \<and> \<not> truthy (?e ''OPENROUTER_TITLE'')
        \<and> \<not> truthy (?e ''OPENROUTER_X_TITLE'')"
    by (simp add: truthy_def)
  have ve: "\<not> truthy (?e ''OPENROUTER_REFERER'') \<and> \<not> truthy (?e ''OPENROUTER_APP_NAME'')"
    by (simp add: truthy_def)
  from default_headers_omitted_or_attached [of ?p ?e] cp ke ue
  have 1: "headers_passed (get_llm_client ?e ?p) = Some None" by blast
  from default_headers_omitted_or_attached [of ?q ?e] cq ke ve
  have 2: "headers_passed (get_openrouter_client ?e ?q) = Some (Some [])" by blast
  from default_headers_omitted_or_attached [of ?p ?f] cp kf
  have "header_passed (get_llm_client ?f ?p) ''HTTP-Referer'' =
        (if truthy (?f ''OPENROUTER_HTTP_REFERER'') then ?f ''OPENROUTER_HTTP_REFERER'' else None)"
    by blast
  then have 3: "header_passed (get_llm_client ?f ?p) ''HTTP-Referer'' = Some ''https://lab.example''"
    by (simp add: truthy_def)
  from default_headers_omitted_or_attached [of new_process ?g] cn kg
  have "header_passed (get_openrouter_client ?g new_process) ''X-Title'' =
        (if truthy (?g ''OPENROUTER_APP_NAME'') then ?g ''OPENROUTER_APP_NAME'' else None)"
    by blast
  then have 4: "header_passed (get_openrouter_client ?g new_process) ''X-Title'' = Some ''planner''"
    by (simp add: truthy_def)
  from 1 2 3 4 show ?thesis by blast
qed

text \<open>
  With the credential alone in the environment, \<open>get_openrouter_client\<close> passes an empty
  dictionary to the client, not \<open>None\<close>.
\<close>

theorem openrouter_client_empty_headers:
  "headers_passed (get_openrouter_client [''OPENROUTER_API_KEY'' \<mapsto> ''k''] new_process) = Some (Some [])
   \<and> headers_passed (get_openrouter_client [''OPENROUTER_API_KEY'' \<mapsto> ''k''] new_process) \<noteq> Some None"
  by (simp add: get_openrouter_client_def get_openrouter_client_body_def OpenAI_def new_process_def
        optional_header_def headers_passed_def deref_def)

end
